theory Spec2Isabelle
  imports Main "HOL-Library.Word"
begin

section \<open>The Franka arm controller (\<open>franka_control_ros_broken.py\<close>)\<close>

text \<open>
  The module drives a robot arm by starting external programs. The model keeps the
  control flow of every function of the module and makes explicit what Python leaves
  implicit: exceptions are values (\<open>Inl\<close>), printing and starting a process are
  recorded in a \<open>world\<close>, and what lies outside the module (the operating system
  and the library functions it calls) is a parameter \<open>E\<close>.
\<close>

subsection \<open>Exceptions, the world, the environment\<close>

datatype py_exc =
    NameError string
  | AttributeError string
  | ValueError string
  | TypeError
  | IndexError
  | OverflowError
  | UnicodeDecodeError
  | OSError
  | EOFError
  | SyntaxError

fun is_ValueError :: "py_exc \<Rightarrow> bool" where
  "is_ValueError (ValueError m) = True"
| "is_ValueError e = False"

type_synonym byte = "8 word"

text \<open>A float is an IEEE 754 double, kept as its 64 bits.\<close>

type_synonym double = "64 word"

text \<open>The values a caller may pass where the module expects a number.\<close>

datatype pyval =
    PyNone
  | PyBool bool
  | PyInt int
  | PyFloat double
  | PyStr string
  | PyList "pyval list"

text \<open>A decoded text is the list of its code points.\<close>

type_synonym ustr = "nat list"

text \<open>
  \<open>printed\<close> holds the lines written by \<open>print\<close>, oldest first; \<open>invoked\<close> holds
  every command handed to \<open>subprocess\<close> with its working directory, oldest first.
\<close>

record world =
  printed :: "string list"
  invoked :: "(string list \<times> string) list"

text \<open>
  The environment. \<open>run\<close> is \<open>subprocess\<close> on the operating system: given the
  commands started so far, a command and a working directory, either the program is not
  run and \<open>subprocess\<close> raises (\<open>Inl\<close>: \<open>OSError\<close> for a program that cannot be
  started, \<open>ValueError\<close> for an argument that holds a NUL character), or the program
  exits with a code, having written some bytes to its standard output (\<open>Inr\<close>). \<open>literal_eval\<close> is \<open>ast.literal_eval\<close>; \<open>np_array\<close>,
  \<open>np_getitem\<close> and \<open>np_str\<close> are \<open>numpy.array\<close>, indexing \<open>a[i, j]\<close> and
  \<open>str\<close> of an array; \<open>obj_str\<close> is \<open>str\<close> of a parsed value.
  \<open>float_of_str\<close> and \<open>float_of_int\<close> are \<open>float\<close> on a string (\<open>None\<close>:
  \<open>ValueError\<close>) and on an integer (\<open>None\<close>: \<open>OverflowError\<close>);
  \<open>str_of_float\<close> is \<open>str\<close> on a float.
\<close>

record ('v, 'arr) env =
  run :: "(string list \<times> string) list \<Rightarrow> string list \<Rightarrow> string \<Rightarrow> py_exc + int \<times> byte list"
  literal_eval :: "ustr \<Rightarrow> py_exc + 'v"
  np_array :: "'v list \<Rightarrow> py_exc + 'arr"
  np_getitem :: "'arr \<Rightarrow> nat \<times> nat \<Rightarrow> py_exc + 'v"
  np_str :: "'arr \<Rightarrow> string"
  obj_str :: "'v \<Rightarrow> string"
  float_of_str :: "string \<Rightarrow> double option"
  float_of_int :: "int \<Rightarrow> double option"
  str_of_float :: "double \<Rightarrow> string"

subsection \<open>Name resolution\<close>

text \<open>
  The names bound at module level once the file has been loaded: one per \<open>import\<close>
  (lines 7 to 12), the class and the three functions. \<open>ast\<close> is not among them.
\<close>

definition module_globals :: "string list" where
  "module_globals =
     [''print_function'', ''subprocess'', ''os'', ''sys'', ''argparse'', ''np'',
      ''FrankaControl'', ''test_motion'', ''example_position'', ''test_position'']"

text \<open>The builtins the module refers to (\<open>raw_input\<close> under Python 2 only).\<close>

definition builtin_names :: "string list" where
  "builtin_names =
     [''object'', ''print'', ''enumerate'', ''float'', ''str'', ''len'', ''ValueError'',
      ''input'', ''raw_input'']"

text \<open>Reading a global name: the module's globals, then the builtins, else \<open>NameError\<close>.\<close>

definition load_global :: "string \<Rightarrow> py_exc + unit" where
  "load_global n =
     (if n \<in> set module_globals then Inr ()
      else if n \<in> set builtin_names then Inr ()
      else Inl (NameError n))"

subsection \<open>Strings and bytes\<close>

text \<open>\<open>" ".join(xs)\<close>\<close>

fun join_sp :: "string list \<Rightarrow> string" where
  "join_sp [] = []"
| "join_sp [x] = x"
| "join_sp (x # y # r) = x @ '' '' @ join_sp (y # r)"

text \<open>\<open>print(a, b, ...)\<close> writes its arguments separated by one space.\<close>

definition py_print :: "string list \<Rightarrow> world \<Rightarrow> world" where
  "py_print args w = w\<lparr>printed := printed w @ [join_sp args]\<rparr>"

fun py_prints :: "string list list \<Rightarrow> world \<Rightarrow> world" where
  "py_prints [] w = w"
| "py_prints (l # ls) w = py_prints ls (py_print l w)"

text \<open>
  \<open>out.decode("utf-8")\<close>, strict: a continuation byte is \<open>10xxxxxx\<close>; overlong
  forms, surrogates and code points above \<open>0x10FFFF\<close> are refused (\<open>None\<close>,
  \<open>UnicodeDecodeError\<close>).
\<close>

definition cont :: "nat \<Rightarrow> bool" where
  "cont c = (128 \<le> c \<and> c < 192)"

fun utf8 :: "nat list \<Rightarrow> ustr option" where
  "utf8 [] = Some []"
| "utf8 [b] = (if b < 128 then Some [b] else None)"
| "utf8 [b, c1] =
     (if b < 128 then map_option ((#) b) (utf8 [c1])
      else if 194 \<le> b \<and> b < 224 \<and> cont c1 then Some [(b - 192) * 64 + (c1 - 128)]
      else None)"
| "utf8 [b, c1, c2] =
     (if b < 128 then map_option ((#) b) (utf8 [c1, c2])
      else if 194 \<le> b \<and> b < 224 \<and> cont c1
        then map_option ((#) ((b - 192) * 64 + (c1 - 128))) (utf8 [c2])
      else if 224 \<le> b \<and> b < 240 \<and> cont c1 \<and> cont c2
              \<and> (if b = 224 then 160 \<le> c1 else True) \<and> (if b = 237 then c1 < 160 else True)
        then Some [(b - 224) * 4096 + (c1 - 128) * 64 + (c2 - 128)]
      else None)"
| "utf8 (b # c1 # c2 # c3 # r) =
     (if b < 128 then map_option ((#) b) (utf8 (c1 # c2 # c3 # r))
      else if 194 \<le> b \<and> b < 224 \<and> cont c1
        then map_option ((#) ((b - 192) * 64 + (c1 - 128))) (utf8 (c2 # c3 # r))
      else if 224 \<le> b \<and> b < 240 \<and> cont c1 \<and> cont c2
              \<and> (if b = 224 then 160 \<le> c1 else True) \<and> (if b = 237 then c1 < 160 else True)
        then map_option ((#) ((b - 224) * 4096 + (c1 - 128) * 64 + (c2 - 128))) (utf8 (c3 # r))
      else if 240 \<le> b \<and> b < 245 \<and> cont c1 \<and> cont c2 \<and> cont c3
              \<and> (if b = 240 then 144 \<le> c1 else True) \<and> (if b = 244 then c1 < 144 else True)
        then map_option
               ((#) ((b - 240) * 262144 + (c1 - 128) * 4096 + (c2 - 128) * 64 + (c3 - 128)))
               (utf8 r)
      else None)"

definition decode_utf8 :: "byte list \<Rightarrow> py_exc + ustr" where
  "decode_utf8 out = (case utf8 (map unat out) of None \<Rightarrow> Inl UnicodeDecodeError | Some t \<Rightarrow> Inr t)"

text \<open>\<open>s.split("\n")\<close>: the pieces between line feeds; never an empty list.\<close>

fun split_from :: "ustr \<Rightarrow> ustr \<Rightarrow> ustr list" where
  "split_from cur [] = [cur]"
| "split_from cur (c # cs) = (if c = 10 then cur # split_from [] cs else split_from (cur @ [c]) cs)"

definition split_nl :: "ustr \<Rightarrow> ustr list" where
  "split_nl s = split_from [] s"

text \<open>The bytes of an ASCII text.\<close>

definition bytes_of :: "string \<Rightarrow> byte list" where
  "bytes_of s = map of_char s"

subsection \<open>The controller\<close>

record FrankaControl =
  ip_address :: string
  debug :: bool
  path :: string

text \<open>
  \<open>__init__(self, ip='192.168.0.88', debug_flag=False)\<close>; an omitted argument is
  \<open>None\<close>. \<open>here\<close> is the directory of the module's file
  (\<open>os.path.dirname(os.path.realpath(__file__))\<close>).
\<close>

definition FrankaControl_init :: "string \<Rightarrow> string option \<Rightarrow> bool option \<Rightarrow> FrankaControl" where
  "FrankaControl_init here ip debug_flag =
     \<lparr>ip_address = (case ip of None \<Rightarrow> ''192.168.0.88'' | Some a \<Rightarrow> a),
      debug = (case debug_flag of None \<Rightarrow> False | Some d \<Rightarrow> d),
      path = here\<rparr>"

text \<open>
  The loop of \<open>get_joint_positions\<close> (lines 70 to 77) over \<open>enumerate(string_list)\<close>:
  \<open>ast.literal_eval(x)\<close> first reads the global \<open>ast\<close>, then calls the library;
  the value is appended; the loop leaves at index 7 or at the end of the list.
\<close>

fun parse_lines :: "('v, 'arr) env \<Rightarrow> nat \<Rightarrow> ustr list \<Rightarrow> 'v list \<Rightarrow> py_exc + 'v list" where
  "parse_lines E idx [] converted_list = Inr converted_list"
| "parse_lines E idx (lit # rest) converted_list =
     (case load_global ''ast'' of
        Inl e \<Rightarrow> Inl e
      | Inr _ \<Rightarrow>
          (case literal_eval E lit of
             Inl e \<Rightarrow> Inl e
           | Inr x \<Rightarrow>
               if idx = 7 then Inr (converted_list @ [x])
               else parse_lines E (Suc idx) rest (converted_list @ [x])))"

text \<open>
  A method returns its result (or the exception it raises), the controller as the call
  leaves it, and the world as the call leaves it.
\<close>

definition get_joint_positions ::
  "('v, 'arr) env \<Rightarrow> FrankaControl \<Rightarrow> world \<Rightarrow> (py_exc + 'v list) \<times> FrankaControl \<times> world" where
  "get_joint_positions E self w =
     (let program = ''./get_joint_positions'';
          command = [program, ip_address self];
          command_str = join_sp command;
          w1 = (if debug self
                then py_prints
                       [[''Working directory: '', path self],
                        [''Program: '', program],
                        [''IP Address of robot: '', ip_address self],
                        [''Command being called: '', command_str],
                        [''Running FRANKA code...'']] w
                else w);
          w2 = w1\<lparr>invoked := invoked w1 @ [(command, path self)]\<rparr>
      in case run E (invoked w1) command (path self) of
           Inl e \<Rightarrow> (Inl e, self, w2)
         | Inr (return_code, out) \<Rightarrow>
             (case decode_utf8 out of
                Inl e \<Rightarrow> (Inl e, self, w2)
              | Inr decoded_output \<Rightarrow>
                  (parse_lines E 0 (split_nl decoded_output) [], self, w2)))"

text \<open>
  \<open>get_position\<close> (lines 31 to 38): the array of the joint data, then its entries
  \<open>[7, 12]\<close>, \<open>[7, 13]\<close> and \<open>[7, 14]\<close>.
\<close>

definition get_position ::
  "('v, 'arr) env \<Rightarrow> FrankaControl \<Rightarrow> world \<Rightarrow> (py_exc + 'v list) \<times> FrankaControl \<times> world" where
  "get_position E self w =
     (case get_joint_positions E self w of
        (Inl e, self1, w1) \<Rightarrow> (Inl e, self1, w1)
      | (Inr rows, self1, w1) \<Rightarrow>
          (case np_array E rows of
             Inl e \<Rightarrow> (Inl e, self1, w1)
           | Inr joints \<Rightarrow>
               (case np_getitem E joints (7, 12) of
                  Inl e \<Rightarrow> (Inl e, self1, w1)
                | Inr x \<Rightarrow>
                    (case np_getitem E joints (7, 13) of
                       Inl e \<Rightarrow> (Inl e, self1, w1)
                     | Inr y \<Rightarrow>
                         (case np_getitem E joints (7, 14) of
                            Inl e \<Rightarrow> (Inl e, self1, w1)
                          | Inr z \<Rightarrow> (Inr [x, y, z], self1, w1))))))"

subsection \<open>Moving the arm\<close>

text \<open>The literals \<open>0.0\<close>, \<open>1.0\<close>, \<open>0.05\<close> and \<open>-0.05\<close> as doubles.\<close>

definition float_0_0 :: double where
  "float_0_0 = 0"

definition float_1_0 :: double where
  "float_1_0 = 0x3FF0000000000000"

definition float_0_05 :: double where
  "float_0_05 = 0x3FA999999999999A"

definition float_m0_05 :: double where
  "float_m0_05 = 0xBFA999999999999A"

text \<open>
  The builtin \<open>float(v)\<close>: a float is returned as it is, a bool and an integer are
  converted, a string is parsed, anything else is a \<open>TypeError\<close>.
\<close>

fun py_float :: "('v, 'arr) env \<Rightarrow> pyval \<Rightarrow> py_exc + double" where
  "py_float E (PyFloat d) = Inr d"
| "py_float E (PyBool b) = Inr (if b then float_1_0 else float_0_0)"
| "py_float E (PyInt i) =
     (case float_of_int E i of None \<Rightarrow> Inl OverflowError | Some d \<Rightarrow> Inr d)"
| "py_float E (PyStr s) =
     (case float_of_str E s of
        None \<Rightarrow> Inl (ValueError ''could not convert string to float'')
      | Some d \<Rightarrow> Inr d)"
| "py_float E PyNone = Inl TypeError"
| "py_float E (PyList xs) = Inl TypeError"

text \<open>\<open>float(a), float(b), float(c)\<close>, left to right; the first exception ends it.\<close>

definition float3 ::
  "('v, 'arr) env \<Rightarrow> pyval \<Rightarrow> pyval \<Rightarrow> pyval \<Rightarrow> py_exc + double \<times> double \<times> double" where
  "float3 E a b c =
     (case py_float E a of
        Inl e \<Rightarrow> Inl e
      | Inr x \<Rightarrow>
          (case py_float E b of
             Inl e \<Rightarrow> Inl e
           | Inr y \<Rightarrow>
               (case py_float E c of
                  Inl e \<Rightarrow> Inl e
                | Inr z \<Rightarrow> Inr (x, y, z))))"

text \<open>
  Lines 93 to 119 and 141 to 169 differ in the program and in the labels of the debugging
  output only. \<open>announce\<close> is the block under \<open>if self.debug\<close> (lines 99 to 107
  and 149 to 157).
\<close>

definition announce ::
  "FrankaControl \<Rightarrow> string \<Rightarrow> string \<times> string \<times> string \<Rightarrow> string list \<Rightarrow> world \<Rightarrow> world" where
  "announce self program labels command w =
     (case labels of (lx, ly, lz) \<Rightarrow>
        if debug self
        then py_prints
               [[''Working directory: '', path self],
                [''Program: '', program],
                [''IP Address of robot: '', ip_address self],
                [lx, command ! 2],
                [ly, command ! 3],
                [lz, command ! 4],
                [''Command being called: '', join_sp command],
                [''Running FRANKA code...'']] w
        else w)"

text \<open>
  The three floats become strings, the command is built and announced, and
  \<open>subprocess.call\<close> runs it; its exit code is reported and returned.
\<close>

definition call_program ::
  "('v, 'arr) env \<Rightarrow> FrankaControl \<Rightarrow> world \<Rightarrow> string \<Rightarrow> string \<times> string \<times> string
     \<Rightarrow> double \<times> double \<times> double \<Rightarrow> (py_exc + int option) \<times> FrankaControl \<times> world" where
  "call_program E self w program labels xyz =
     (case xyz of (fx, fy, fz) \<Rightarrow>
       (let x = str_of_float E fx; y = str_of_float E fy; z = str_of_float E fz;
            command = [program, ip_address self, x, y, z];
            w1 = announce self program labels command w;
            w2 = w1\<lparr>invoked := invoked w1 @ [(command, path self)]\<rparr>
        in case run E (invoked w1) command (path self) of
             Inl e \<Rightarrow> (Inl e, self, w2)
           | Inr (return_code, out) \<Rightarrow>
               (let w3 = (if return_code = 0
                          then (if debug self
                                then py_print [''No problems running '', program] w2
                                else w2)
                          else py_print [''Python has registered a problem with '', program] w2)
                in (Inr (Some return_code), self, w3))))"

text \<open>An omitted argument of \<open>move_relative\<close> takes the default \<open>0.0\<close>.\<close>

definition or_default :: "pyval option \<Rightarrow> pyval" where
  "or_default a = (case a of None \<Rightarrow> PyFloat float_0_0 | Some v \<Rightarrow> v)"

text \<open>
  \<open>move_relative(self, dx=0.0, dy=0.0, dz=0.0)\<close>; an omitted argument is \<open>None\<close>.
  The result \<open>Inr None\<close> is the bare \<open>return\<close> of line 91.
\<close>

definition move_relative ::
  "('v, 'arr) env \<Rightarrow> FrankaControl \<Rightarrow> world \<Rightarrow> pyval option \<Rightarrow> pyval option \<Rightarrow> pyval option
     \<Rightarrow> (py_exc + int option) \<times> FrankaControl \<times> world" where
  "move_relative E self w dx dy dz =
     (case float3 E (or_default dx) (or_default dy) (or_default dz) of
        Inl (ValueError m) \<Rightarrow>
          (Inr None, self, py_print [''Arguments are invalid: must be floats''] w)
      | Inl e \<Rightarrow> (Inl e, self, w)
      | Inr d \<Rightarrow>
          call_program E self w ''./franka_move_to_relative'' (''dx: '', ''dy: '', ''dz: '') d)"

text \<open>\<open>coordinates[i]\<close> on a list, for an index that is not negative.\<close>

definition py_index :: "'a list \<Rightarrow> nat \<Rightarrow> py_exc + 'a" where
  "py_index xs i = (if i < length xs then Inr (xs ! i) else Inl IndexError)"

definition move_absolute ::
  "('v, 'arr) env \<Rightarrow> FrankaControl \<Rightarrow> world \<Rightarrow> pyval list
     \<Rightarrow> (py_exc + int option) \<times> FrankaControl \<times> world" where
  "move_absolute E self w coordinates =
     (if length coordinates > 3
      then (Inl (ValueError ''Invalid coordinates. There can only be three dimensions.''), self, w)
      else
        (case py_index coordinates 0 of
           Inl e \<Rightarrow> (Inl e, self, w)
         | Inr x \<Rightarrow>
        (case py_index coordinates 1 of
           Inl e \<Rightarrow> (Inl e, self, w)
         | Inr y \<Rightarrow>
        (case py_index coordinates 2 of
           Inl e \<Rightarrow> (Inl e, self, w)
         | Inr z \<Rightarrow>
        (case float3 E x y z of
           Inl (ValueError m) \<Rightarrow>
             (Inr None, self, py_print [''Arguments are invalid: must be floats''] w)
         | Inl e \<Rightarrow> (Inl e, self, w)
         | Inr d \<Rightarrow>
             call_program E self w ''./franka_move_to_absolute''
               (''Go to x: '', ''Go to y: '', ''Go to z: '') d)))))"


subsection \<open>The command line\<close>

text \<open>
  What an instance of \<open>FrankaControl\<close> offers: the methods of the class and the three
  fields set by \<open>__init__\<close>. Reading another attribute raises \<open>AttributeError\<close>.
\<close>

definition FrankaControl_attributes :: "string list" where
  "FrankaControl_attributes =
     [''__init__'', ''get_position'', ''get_joint_positions'', ''move_relative'',
      ''move_absolute'', ''ip_address'', ''debug'', ''path'']"

definition load_attr :: "string \<Rightarrow> py_exc + unit" where
  "load_attr n = (if n \<in> set FrankaControl_attributes then Inr () else Inl (AttributeError n))"

text \<open>
  \<open>test_position\<close> (lines 250 to 260). The method it asks for,
  \<open>get_end_effector_pos\<close>, is looked up first; the lines after the call are those of a
  method that returns the position, as \<open>get_position\<close> does.
\<close>

definition test_position :: "('v, 'arr) env \<Rightarrow> string \<Rightarrow> world \<Rightarrow> (py_exc + unit) \<times> world" where
  "test_position E here w =
     (let arm = FrankaControl_init here None (Some True)
      in case load_attr ''get_end_effector_pos'' of
           Inl e \<Rightarrow> (Inl e, w)
         | Inr _ \<Rightarrow>
             (case get_position E arm w of
                (Inl e, arm1, w1) \<Rightarrow> (Inl e, w1)
              | (Inr pos, arm1, w1) \<Rightarrow>
                  (let w2 = py_print [''End effector position:''] w1
                   in case py_index pos 0 of
                        Inl e \<Rightarrow> (Inl e, w2)
                      | Inr x \<Rightarrow>
                          (let w3 = py_print [''X: '', obj_str E x] w2
                           in case py_index pos 1 of
                                Inl e \<Rightarrow> (Inl e, w3)
                              | Inr y \<Rightarrow>
                                  (let w4 = py_print [''Y: '', obj_str E y] w3
                                   in case py_index pos 2 of
                                        Inl e \<Rightarrow> (Inl e, w4)
                                      | Inr z \<Rightarrow> (Inr (), py_print [''Z: '', obj_str E z] w4))))))"

text \<open>
  The loop of \<open>example_position\<close> (lines 240 to 247). It has no exit but an exception;
  \<open>None\<close> stands for a run that never ends.
\<close>

partial_function (option) position_loop ::
  "('v, 'arr) env \<Rightarrow> FrankaControl \<Rightarrow> world \<Rightarrow> (py_exc \<times> world) option" where
  "position_loop E arm w =
     (case get_joint_positions E arm w of
        (Inl e, arm1, w1) \<Rightarrow> Some (e, w1)
      | (Inr rows, arm1, w1) \<Rightarrow>
          (case np_array E rows of
             Inl e \<Rightarrow> Some (e, w1)
           | Inr data \<Rightarrow>
               (let w2 = py_print [''End effector position:''] (py_print [np_str E data] w1)
                in case np_getitem E data (7, 12) of
                     Inl e \<Rightarrow> Some (e, w2)
                   | Inr x \<Rightarrow>
                       (let w3 = py_print [''X: '', obj_str E x] w2
                        in case np_getitem E data (7, 13) of
                             Inl e \<Rightarrow> Some (e, w3)
                           | Inr y \<Rightarrow>
                               (let w4 = py_print [''Y: '', obj_str E y] w3
                                in case np_getitem E data (7, 14) of
                                     Inl e \<Rightarrow> Some (e, w4)
                                   | Inr z \<Rightarrow>
                                       position_loop E arm1 (py_print [''Z: '', obj_str E z] w4))))))"

text \<open>
  \<open>example_position\<close> (lines 233 to 247): \<open>FrankaRos(debug=True)\<close> first reads the
  global \<open>FrankaRos\<close>; the loop runs on the controller with \<open>debug\<close> set.
\<close>

definition example_position ::
  "('v, 'arr) env \<Rightarrow> string \<Rightarrow> world \<Rightarrow> (py_exc \<times> world) option" where
  "example_position E here w =
     (case load_global ''FrankaRos'' of
        Inl e \<Rightarrow> Some (e, w)
      | Inr _ \<Rightarrow> position_loop E (FrankaControl_init here None (Some True)) w)"

text \<open>\<open>s.lower()\<close> on ASCII letters.\<close>

definition py_lower :: "string \<Rightarrow> string" where
  "py_lower s =
     map (\<lambda>c. if 65 \<le> (of_char c :: nat) \<and> (of_char c :: nat) \<le> 90
               then char_of (of_char c + 32 :: nat) else c) s"

text \<open>
  The two prompts of \<open>test_motion\<close> (lines 182 to 199). The lines typed by the user
  are a list; \<open>input\<close> writes its prompt, takes the next line, and raises
  \<open>EOFError\<close> when there is none.
\<close>

fun ask_testing :: "string list \<Rightarrow> world \<Rightarrow> (py_exc + bool) \<times> string list \<times> world" where
  "ask_testing [] w =
     (Inl EOFError, [], py_print [''Is this program being tested with the arm? [N/y]: ''] w)"
| "ask_testing (testing # rest) w =
     (let w1 = py_print [''Is this program being tested with the arm? [N/y]: ''] w
      in if testing = [] \<or> py_lower testing = ''n'' then (Inr False, rest, w1)
         else if py_lower testing = ''y'' then (Inr True, rest, w1)
         else ask_testing rest (py_print [''Invalid response.''] w1))"

fun ask_direction :: "string list \<Rightarrow> world \<Rightarrow> (py_exc + string) \<times> string list \<times> world" where
  "ask_direction [] w =
     (Inl EOFError, [], py_print [''Enter 0 to move along x slightly, 1 for backwards: ''] w)"
| "ask_direction (direction # rest) w =
     (let w1 = py_print [''Enter 0 to move along x slightly, 1 for backwards: ''] w
      in if direction \<in> set [''0'', ''1''] then (Inr direction, rest, w1)
         else ask_direction rest (py_print [''Invalid input. Must be 0/1.''] w1))"

text \<open>\<open>test_motion\<close> (lines 172 to 230).\<close>

definition test_motion ::
  "('v, 'arr) env \<Rightarrow> string \<Rightarrow> string list \<Rightarrow> world \<Rightarrow> (py_exc + unit) \<times> string list \<times> world" where
  "test_motion E here inp w =
     (case ask_testing inp w of
        (Inl e, inp1, w1) \<Rightarrow> (Inl e, inp1, w1)
      | (Inr testing, inp1, w1) \<Rightarrow>
          (case ask_direction inp1
                  (py_print [''Testing mode: '', if testing then ''True'' else ''False''] w1) of
             (Inl e, inp2, w2) \<Rightarrow> (Inl e, inp2, w2)
           | (Inr direction, inp2, w2) \<Rightarrow>
               if testing
               then
                 (let arm = FrankaControl_init here None (Some True)
                  in if direction = ''0''
                     then (case move_relative E arm w2 (Some (PyFloat float_0_05)) None None of
                             (Inl e, arm1, w3) \<Rightarrow> (Inl e, inp2, w3)
                           | (Inr r, arm1, w3) \<Rightarrow> (Inr (), inp2, w3))
                     else if direction = ''1''
                     then (case move_relative E arm w2 (Some (PyFloat float_m0_05)) None None of
                             (Inl e, arm1, w3) \<Rightarrow> (Inl e, inp2, w3)
                           | (Inr r, arm1, w3) \<Rightarrow> (Inr (), inp2, w3))
                     else (Inr (), inp2, w2))
               else
                 (let dx = (if direction = ''0'' then ''0.05''
                            else if direction = ''1'' then ''-0.05'' else ''0'');
                      dy = ''0'';
                      dz = ''0'';
                      program = ''./franka_move_to_relative'';
                      ip = ''192.168.0.88'';
                      command = [program, ip, dx, dy, dz]
                  in (Inr (), inp2,
                      py_prints
                        [[''dx: '', dx], [''dy: '', dy], [''dz: '', dz],
                         [''Program being run is: '', program],
                         [''IP Address of robot: '', ip],
                         [''Command being called: '', join_sp command]] w2))))"

text \<open>The flags \<open>argparse\<close> hands to the module (lines 264 to 272).\<close>

record args =
  motion_test :: bool
  position_test :: bool
  joint_test :: bool

text \<open>
  Lines 274 to 281. The result holds the exception that ends the program, if any, the
  input left and the world; \<open>None\<close> is a run that never ends.
\<close>

definition main ::
  "('v, 'arr) env \<Rightarrow> string \<Rightarrow> args \<Rightarrow> string list \<Rightarrow> world
     \<Rightarrow> ((py_exc + unit) \<times> string list \<times> world) option" where
  "main E here a inp w =
     (if motion_test a then Some (test_motion E here inp w)
      else if position_test a
        then (case test_position E here w of (r, w1) \<Rightarrow> Some (r, inp, w1))
      else if joint_test a
        then (case example_position E here w of
                None \<Rightarrow> None
              | Some (e, w1) \<Rightarrow> Some (Inl e, inp, w1))
      else Some (Inr (), inp, py_print [''Try: franka_control.py --help''] w))"

text \<open>A value is numeric-coercible when \<open>float\<close> accepts it.\<close>

definition coercible :: "('v, 'arr) env \<Rightarrow> pyval \<Rightarrow> bool" where
  "coercible E v = (case py_float E v of Inl e \<Rightarrow> False | Inr d \<Rightarrow> True)"

text \<open>
  The exception of the first value, in the order given, that \<open>float\<close> refuses;
  \<open>None\<close> when it accepts them all.
\<close>

fun first_error :: "('v, 'arr) env \<Rightarrow> pyval list \<Rightarrow> py_exc option" where
  "first_error E [] = None"
| "first_error E (v # vs) =
     (case py_float E v of Inl e \<Rightarrow> Some e | Inr d \<Rightarrow> first_error E vs)"

subsection \<open>A test double for the environment\<close>

text \<open>
  An environment for concrete runs: every call of \<open>subprocess\<close> ends as \<open>r\<close>
  says, and the library accepts every line and every index. The concrete runs below pass
  no string that is a number and no integer, and the only float they print is \<open>0.0\<close>.
\<close>

definition mock_env :: "py_exc + int \<times> byte list \<Rightarrow> (unit, unit) env" where
  "mock_env r =
     \<lparr>run = (\<lambda>h command cwd. r),
      literal_eval = (\<lambda>t. Inr ()),
      np_array = (\<lambda>rows. Inr ()),
      np_getitem = (\<lambda>a ij. Inr ()),
      np_str = (\<lambda>a. ''()''),
      obj_str = (\<lambda>v. ''()''),
      float_of_str = (\<lambda>s. None),
      float_of_int = (\<lambda>i. None),
      str_of_float = (\<lambda>d. if d = float_0_0 then ''0.0'' else ''<float>'')\<rparr>"

text \<open>A controller built with no arguments, and a world in which nothing has happened.\<close>

definition arm0 :: FrankaControl where
  "arm0 = FrankaControl_init ''/opt/franka'' None None"

definition world0 :: world where
  "world0 = \<lparr>printed = [], invoked = []\<rparr>"

text \<open>One row of the table of section 8 of the specification, and a row of an identity transform.\<close>

definition spec_row :: string where
  "spec_row = ''[0,0,0,0,0,0,0,0,0,0,0,0,1.0,2.0,3.0,1]''"

definition unit_row :: string where
  "unit_row = ''[1.0, 0.0, 0.0, 0.0, 0.0, 1.0, 0.0, 0.0, 0.0, 0.0, 1.0, 0.0, 0.5, 0.25, 0.125, 1.0]''"

text \<open>\<open>n\<close> lines, each ended by a line feed.\<close>

definition lines_of :: "nat \<Rightarrow> string \<Rightarrow> string" where
  "lines_of n row = concat (replicate n (row @ [CHR 0x0A]))"

section \<open>Properties\<close>

subsection \<open>Helper facts\<close>

lemma printed_py_print [simp]: "printed (py_print a w) = printed w @ [join_sp a]"
  by (simp add: py_print_def)

lemma invoked_py_print [simp]: "invoked (py_print a w) = invoked w"
  by (simp add: py_print_def)

lemma invoked_py_prints [simp]: "invoked (py_prints ls w) = invoked w"
  by (induction ls arbitrary: w) simp_all

lemma ast_unbound: "load_global ''ast'' = Inl (NameError ''ast'')"
  by (simp add: load_global_def module_globals_def builtin_names_def)

lemma split_from_not_Nil: "split_from cur s \<noteq> []"
  by (induction s arbitrary: cur) auto

lemma parse_lines_NameError:
  "ls \<noteq> [] \<Longrightarrow> parse_lines E idx ls acc = Inl (NameError ''ast'')"
  by (cases ls) (simp_all add: ast_unbound)

lemma parse_split_NameError:
  "parse_lines E 0 (split_nl s) [] = Inl (NameError ''ast'')"
  by (simp add: parse_lines_NameError split_nl_def split_from_not_Nil)

text \<open>What \<open>get_joint_positions\<close> raises: it never comes back with a value.\<close>

lemma get_joint_positions_raises:
  "fst (get_joint_positions E self w) =
     (case run E (invoked w) [''./get_joint_positions'', ip_address self] (path self) of
        Inl e \<Rightarrow> Inl e
      | Inr (return_code, out) \<Rightarrow>
          (case decode_utf8 out of
             Inl e \<Rightarrow> Inl e
           | Inr decoded_output \<Rightarrow> Inl (NameError ''ast'')))"
  by (simp add: get_joint_positions_def Let_def parse_split_NameError
      split: option.split sum.split prod.split)

lemma get_joint_positions_isl: "isl (fst (get_joint_positions E self w))"
  by (simp add: get_joint_positions_raises split: option.split sum.split prod.split)

lemma get_position_raises:
  "fst (get_position E self w) = fst (get_joint_positions E self w)"
proof (cases "get_joint_positions E self w")
  case (fields r self1 w1)
  with get_joint_positions_isl [of E self w] obtain e where "r = Inl e"
    by (cases r) simp_all
  with fields show ?thesis
    by (simp add: get_position_def)
qed

text \<open>ASCII bytes decode to themselves.\<close>

lemma utf8_ascii: "\<forall>b \<in> set bs. b < 128 \<Longrightarrow> utf8 bs = Some bs"
  by (induction bs rule: utf8.induct) simp_all

lemma unat_of_char: "unat (of_char c :: byte) = of_char c"
proof -
  have "unat (of_nat (of_char c) :: byte) = of_char c"
    by (simp only: unat_of_nat) simp
  then show ?thesis
    by (simp only: of_nat_of_char)
qed

lemma decode_utf8_ascii:
  "\<forall>c \<in> set s. (of_char c :: nat) < 128 \<Longrightarrow> decode_utf8 (bytes_of s) = Inr (map of_char s)"
  by (simp add: decode_utf8_def bytes_of_def comp_def unat_of_char utf8_ascii)

lemma ascii_lines_of:
  "\<forall>c \<in> set row. (of_char c :: nat) < 128 \<Longrightarrow> \<forall>c \<in> set (lines_of n row). (of_char c :: nat) < 128"
  by (auto simp: lines_of_def)

lemma ascii_spec_row: "\<forall>c \<in> set spec_row. (of_char c :: nat) < 128"
  by (simp add: spec_row_def)

lemma ascii_unit_row: "\<forall>c \<in> set unit_row. (of_char c :: nat) < 128"
  by (simp add: unit_row_def)

lemma run_update [simp]: "run (E\<lparr>run := f\<rparr>) = f"
  by simp

subsection \<open>Reading the joint positions\<close>

text \<open>
  C1. Short or malformed output should end in a parse error. The code does not get as
  far as parsing: with no output at all (no line), and with two lines of which the second
  is no list, \<open>get_joint_positions\<close> raises \<open>NameError\<close> for the name \<open>ast\<close>,
  whatever the library and the exit code are.
\<close>

theorem short_output_NameError:
  "fst (get_joint_positions (E\<lparr>run := \<lambda>h c d. Inr (rc, [])\<rparr>) self w) = Inl (NameError ''ast'')
   \<and> fst (get_joint_positions
            (E\<lparr>run := \<lambda>h c d. Inr (rc, bytes_of (''[1.0, 2.0]'' @ [CHR 0x0A] @ ''not a list''))\<rparr>)
            self w) = Inl (NameError ''ast'')"
proof -
  have "decode_utf8 [] = Inr []"
    by (simp add: decode_utf8_def)
  moreover have "\<exists>t. decode_utf8 (bytes_of (''[1.0, 2.0]'' @ [CHR 0x0A] @ ''not a list'')) = Inr t"
    by (subst decode_utf8_ascii) simp_all
  ultimately show ?thesis
    by (auto simp: get_joint_positions_raises)
qed

text \<open>
  C2. On a well-formed table of 8 rows and 16 columns, \<open>get_position\<close> should return
  entries 12, 13 and 14 of row 7 of what \<open>get_joint_positions\<close> returns. Neither
  returns: on such a table both raise \<open>NameError\<close> for \<open>ast\<close>.
\<close>

theorem table_no_position:
  "fst (get_joint_positions (E\<lparr>run := \<lambda>h c d. Inr (rc, bytes_of (lines_of 8 unit_row))\<rparr>) self w)
     = Inl (NameError ''ast'')
   \<and> fst (get_position (E\<lparr>run := \<lambda>h c d. Inr (rc, bytes_of (lines_of 8 unit_row))\<rparr>) self w)
     = Inl (NameError ''ast'')"
proof -
  have "\<exists>t. decode_utf8 (bytes_of (lines_of 8 unit_row)) = Inr t"
    using decode_utf8_ascii [OF ascii_lines_of [OF ascii_unit_row], of 8] by simp
  then show ?thesis
    by (auto simp: get_position_raises get_joint_positions_raises)
qed

text \<open>
  C3. With eight lines \<open>[0,0,0,0,0,0,0,0,0,0,0,0,1.0,2.0,3.0,1]\<close> from the query
  program, \<open>get_position\<close> should return \<open>(1.0, 2.0, 3.0)\<close>. It raises
  \<open>NameError\<close> for \<open>ast\<close>, whether or not the last line ends with a line feed.
\<close>

theorem spec_rows_NameError:
  "fst (get_position (E\<lparr>run := \<lambda>h c d. Inr (rc, bytes_of (lines_of 8 spec_row))\<rparr>) self w)
     = Inl (NameError ''ast'')
   \<and> fst (get_position (E\<lparr>run := \<lambda>h c d. Inr (rc, bytes_of (lines_of 7 spec_row @ spec_row))\<rparr>) self w)
     = Inl (NameError ''ast'')"
proof -
  have "\<exists>t. decode_utf8 (bytes_of (lines_of 8 spec_row)) = Inr t"
    using decode_utf8_ascii [OF ascii_lines_of [OF ascii_spec_row], of 8] by simp
  moreover have "\<forall>c \<in> set (lines_of 7 spec_row @ spec_row). (of_char c :: nat) < 128"
    using ascii_lines_of [OF ascii_spec_row, of 7] ascii_spec_row by auto
  then have "\<exists>t. decode_utf8 (bytes_of (lines_of 7 spec_row @ spec_row)) = Inr t"
    by (simp add: decode_utf8_ascii)
  ultimately show ?thesis
    by (auto simp: get_position_raises get_joint_positions_raises)
qed

text \<open>
  C4, as stated: whatever the query program writes, \<open>get_joint_positions\<close> raises
  \<open>NameError\<close>. Not so when the output is not UTF-8: the single byte \<open>0xFF\<close> makes
  \<open>out.decode("utf-8")\<close> of line 67 raise \<open>UnicodeDecodeError\<close>, before line 73.
\<close>

theorem undecodable_output_counterexample:
  "fst (get_joint_positions (mock_env (Inr (0, [0xFF]))) arm0 world0) = Inl UnicodeDecodeError
   \<and> fst (get_joint_positions (mock_env (Inr (0, [0xFF]))) arm0 world0) \<noteq> Inl (NameError ''ast'')"
  by (simp add: get_joint_positions_raises mock_env_def decode_utf8_def)

text \<open>
  C4, amended: \<open>get_joint_positions\<close> and \<open>get_position\<close> never return a value.
  When \<open>subprocess\<close> raises instead of running the query program (\<open>OSError\<close> for
  a program that cannot be started, \<open>ValueError\<close> for an address that holds a NUL
  character) they raise that exception, when the output of the program is not UTF-8 they
  raise \<open>UnicodeDecodeError\<close>, and in every other case, whatever the output, they
  raise \<open>NameError\<close> for the name \<open>ast\<close>, which the module never binds.
\<close>

theorem never_returns:
  "isl (fst (get_joint_positions E self w))
   \<and> isl (fst (get_position E self w))
   \<and> fst (get_position E self w) = fst (get_joint_positions E self w)
   \<and> fst (get_joint_positions E self w) =
       (case run E (invoked w) [''./get_joint_positions'', ip_address self] (path self) of
          Inl e \<Rightarrow> Inl e
        | Inr (return_code, out) \<Rightarrow>
            (case decode_utf8 out of
               Inl e \<Rightarrow> Inl e
             | Inr decoded_output \<Rightarrow> Inl (NameError ''ast'')))
   \<and> load_global ''ast'' = Inl (NameError ''ast'')"
  using get_joint_positions_raises [of E self w] get_joint_positions_isl [of E self w]
  by (simp add: get_position_raises ast_unbound)

subsection \<open>Moving the arm\<close>

lemma invoked_announce [simp]: "invoked (announce self program labels command w) = invoked w"
  by (simp add: announce_def split: prod.split)

lemma float3_fails:
  "\<not> (coercible E a \<and> coercible E b \<and> coercible E c) \<Longrightarrow> \<exists>e. float3 E a b c = Inl e"
  by (auto simp: coercible_def float3_def split: sum.splits)

lemma float3_succeeds:
  "float3 E a b c = Inr d \<Longrightarrow> coercible E a \<and> coercible E b \<and> coercible E c"
  by (auto simp: coercible_def float3_def split: sum.splits)

lemma float3_first_error:
  "float3 E a b c = Inl e \<Longrightarrow> first_error E [a, b, c] = Some e"
  by (auto simp: float3_def split: sum.splits)

lemma move_relative_invalid:
  "float3 E (or_default dx) (or_default dy) (or_default dz) = Inl e \<Longrightarrow>
   move_relative E self w dx dy dz =
     (if is_ValueError e
      then (Inr None, self, py_print [''Arguments are invalid: must be floats''] w)
      else (Inl e, self, w))"
  by (cases e) (simp_all add: move_relative_def)

lemma move_absolute_invalid:
  "float3 E a b c = Inl e \<Longrightarrow>
   move_absolute E self w [a, b, c] =
     (if is_ValueError e
      then (Inr None, self, py_print [''Arguments are invalid: must be floats''] w)
      else (Inl e, self, w))"
  by (cases e) (simp_all add: move_absolute_def py_index_def)

lemma mock_fields [simp]:
  "run (mock_env r) = (\<lambda>h command cwd. r)"
  "float_of_str (mock_env r) = (\<lambda>s. None)"
  "float_of_int (mock_env r) = (\<lambda>i. None)"
  "str_of_float (mock_env r) = (\<lambda>d. if d = float_0_0 then ''0.0'' else ''<float>'')"
  by (simp_all add: mock_env_def)

lemma arm0_fields [simp]:
  "ip_address arm0 = ''192.168.0.88''" "debug arm0 = False" "path arm0 = ''/opt/franka''"
  by (simp_all add: arm0_def FrankaControl_init_def)

text \<open>
  C5, as stated: an argument that is not numeric-coercible makes the method return a
  sentinel. Not so for \<open>None\<close>: \<open>float(None)\<close> raises \<open>TypeError\<close>, which
  \<open>except ValueError\<close> (line 89) does not catch, so \<open>move_relative(None)\<close> raises.
\<close>

theorem none_argument_counterexample:
  "\<not> coercible (mock_env (Inr (0, []))) (PyNone)
   \<and> fst (move_relative (mock_env (Inr (0, []))) arm0 world0 (Some PyNone) None None) = Inl TypeError
   \<and> fst (move_relative (mock_env (Inr (0, []))) arm0 world0 (Some PyNone) None None) \<noteq> Inr None"
  by (simp add: coercible_def move_relative_def float3_def or_default_def)

text \<open>
  C5, amended: when some argument of \<open>move_relative\<close>, or some of the three coordinates
  of \<open>move_absolute\<close>, is not numeric-coercible, no subprocess is invoked. The first
  argument, in the order given, on which \<open>float\<close> fails decides the outcome: on
  \<open>ValueError\<close> (a string that is no number) the method prints
  \<open>Arguments are invalid: must be floats\<close> and returns \<open>None\<close>, which is no exit
  code; any other exception (\<open>TypeError\<close>, \<open>OverflowError\<close>) reaches the caller,
  and nothing is printed.
\<close>

theorem invalid_arguments:
  assumes "\<not> (coercible E (or_default dx) \<and> coercible E (or_default dy) \<and> coercible E (or_default dz))"
  shows "\<exists>e. first_error E [or_default dx, or_default dy, or_default dz] = Some e
     \<and> float3 E (or_default dx) (or_default dy) (or_default dz) = Inl e
     \<and> move_relative E self w dx dy dz =
         (if is_ValueError e
          then (Inr None, self, w\<lparr>printed := printed w @ [''Arguments are invalid: must be floats'']\<rparr>)
          else (Inl e, self, w))
     \<and> move_absolute E self w [or_default dx, or_default dy, or_default dz] =
         (if is_ValueError e
          then (Inr None, self, w\<lparr>printed := printed w @ [''Arguments are invalid: must be floats'']\<rparr>)
          else (Inl e, self, w))
     \<and> fst (move_relative E self w dx dy dz) = (if is_ValueError e then Inr None else Inl e)
     \<and> fst (move_absolute E self w [or_default dx, or_default dy, or_default dz])
         = (if is_ValueError e then Inr None else Inl e)
     \<and> invoked (snd (snd (move_relative E self w dx dy dz))) = invoked w
     \<and> invoked (snd (snd (move_absolute E self w [or_default dx, or_default dy, or_default dz])))
         = invoked w
     \<and> (\<forall>rc. fst (move_relative E self w dx dy dz) \<noteq> Inr (Some rc))
     \<and> (\<forall>rc. fst (move_absolute E self w [or_default dx, or_default dy, or_default dz])
               \<noteq> Inr (Some rc))"
proof -
  from float3_fails [OF assms] obtain e
    where e: "float3 E (or_default dx) (or_default dy) (or_default dz) = Inl e" ..
  have first: "first_error E [or_default dx, or_default dy, or_default dz] = Some e"
    by (rule float3_first_error [OF e])
  show ?thesis
    using e first
    by (simp add: move_relative_invalid [OF e] move_absolute_invalid [OF e] py_print_def
        del: first_error.simps)
qed

theorem invalid_arguments_witness:
  "\<not> coercible (mock_env (Inr (0, []))) (PyStr ''abc'')
   \<and> first_error (mock_env (Inr (0, []))) [PyStr ''abc'', PyFloat float_0_0, PyFloat float_0_0]
       = Some (ValueError ''could not convert string to float'')
   \<and> move_relative (mock_env (Inr (0, []))) arm0 world0 (Some (PyStr ''abc'')) None None
       = (Inr None, arm0, \<lparr>printed = [''Arguments are invalid: must be floats''], invoked = []\<rparr>)
   \<and> move_absolute (mock_env (Inr (0, []))) arm0 world0 [PyStr ''abc'', PyFloat float_0_0, PyFloat float_0_0]
       = (Inr None, arm0, \<lparr>printed = [''Arguments are invalid: must be floats''], invoked = []\<rparr>)"
  using invalid_arguments [of "mock_env (Inr (0, []))" "Some (PyStr ''abc'')" None None arm0 world0]
  by (simp add: coercible_def move_relative_def move_absolute_def py_index_def float3_def
      or_default_def py_print_def world0_def)

text \<open>
  C6, as stated: a list whose length is not 3 gives a failure that is logged and
  recovered locally. Not so: with four coordinates \<open>move_absolute\<close> raises
  \<open>ValueError\<close> to its caller (line 132) and prints nothing.
\<close>

theorem four_coordinates_counterexample:
  "move_absolute (mock_env (Inr (0, []))) arm0 world0 [PyInt 1, PyInt 2, PyInt 3, PyInt 4]
     = (Inl (ValueError ''Invalid coordinates. There can only be three dimensions.''), arm0, world0)
   \<and> printed world0 = []"
  by (simp add: move_absolute_def world0_def)

text \<open>
  C6, amended: for a list of coordinates whose length is not 3, \<open>move_absolute\<close>
  raises an exception to its caller (\<open>ValueError\<close> when the list is longer than 3;
  the index error of line 133 when it is shorter) before any subprocess is invoked; it
  prints nothing and leaves the world as it was.
\<close>

theorem wrong_length_raises:
  assumes "length cs \<noteq> 3"
  shows "move_absolute E self w cs =
     (Inl (if 3 < length cs
           then ValueError ''Invalid coordinates. There can only be three dimensions.''
           else IndexError), self, w)"
  using assms by (auto simp: move_absolute_def py_index_def split: sum.splits)

theorem wrong_length_raises_witness:
  "length [PyFloat float_0_0, PyFloat float_0_0] \<noteq> 3
   \<and> move_absolute (mock_env (Inr (0, []))) arm0 world0 [PyFloat float_0_0, PyFloat float_0_0]
       = (Inl IndexError, arm0, world0)"
  using wrong_length_raises [of "[PyFloat float_0_0, PyFloat float_0_0]" "mock_env (Inr (0, []))" arm0 world0]
  by simp



text \<open>
  C9: no operation of the controller changes the address, the debug flag or the path it
  was built with, whether it returns or raises.
\<close>

theorem configuration_unchanged:
  "fst (snd (get_joint_positions E self w)) = self
   \<and> fst (snd (get_position E self w)) = self
   \<and> fst (snd (move_relative E self w dx dy dz)) = self
   \<and> fst (snd (move_absolute E self w cs)) = self"
proof (intro conjI)
  show "fst (snd (get_joint_positions E self w)) = self"
    by (simp add: get_joint_positions_def Let_def split: option.split sum.split prod.split)
  show "fst (snd (get_position E self w)) = self"
    by (simp add: get_position_def get_joint_positions_def Let_def
        split: option.split sum.split prod.split)
  have call: "fst (snd (call_program E self w p l d)) = self" for p l d
    by (simp add: call_program_def Let_def split: prod.split sum.split)
  show "fst (snd (move_relative E self w dx dy dz)) = self"
    by (simp add: move_relative_def call split: sum.split py_exc.split)
  show "fst (snd (move_absolute E self w cs)) = self"
    by (simp add: move_absolute_def call split: sum.split py_exc.split)
qed

text \<open>
  C10: a controller built with no arguments has the address \<open>192.168.0.88\<close> and
  \<open>debug\<close> off; \<open>move_relative\<close> with no arguments hands to \<open>subprocess.call\<close>
  the relative-motion program, the address and three times \<open>str(0.0)\<close>, which is
  \<open>0.0\<close> in an interpreter that prints the float \<open>0.0\<close> so.
\<close>

theorem defaults:
  assumes "str_of_float E float_0_0 = ''0.0''"
  shows "ip_address (FrankaControl_init here None None) = ''192.168.0.88''
     \<and> debug (FrankaControl_init here None None) = False
     \<and> invoked (snd (snd (move_relative E (FrankaControl_init here None None) w None None None)))
         = invoked w @
           [([''./franka_move_to_relative'', ''192.168.0.88'', ''0.0'', ''0.0'', ''0.0''], here)]"
  using assms
  by (simp add: FrankaControl_init_def move_relative_def float3_def or_default_def
      call_program_def Let_def announce_def split: sum.split prod.split)

theorem defaults_witness:
  "str_of_float (mock_env (Inr (0, []))) float_0_0 = ''0.0''
   \<and> invoked (snd (snd (move_relative (mock_env (Inr (0, []))) (FrankaControl_init ''/opt/franka'' None None)
         world0 None None None)))
       = [([''./franka_move_to_relative'', ''192.168.0.88'', ''0.0'', ''0.0'', ''0.0''], ''/opt/franka'')]"
  using defaults [of "mock_env (Inr (0, []))" "''/opt/franka''" world0]
  by (simp add: world0_def)

subsection \<open>The command line\<close>

text \<open>
  C8. With the position-test flag the program should print the position of the end
  effector, and with the joint-test flag it should print the joint data again and again.
  It does neither. \<open>test_position\<close> asks the controller for \<open>get_end_effector_pos\<close>,
  which the class does not have, and \<open>example_position\<close> reads the global
  \<open>FrankaRos\<close>, which the module does not bind: both end with an exception, having
  printed nothing and started no program.
\<close>

theorem position_flags_raise:
  "main E here \<lparr>motion_test = False, position_test = True, joint_test = False\<rparr> inp w
     = Some (Inl (AttributeError ''get_end_effector_pos''), inp, w)
   \<and> main E here \<lparr>motion_test = False, position_test = False, joint_test = True\<rparr> inp w
     = Some (Inl (NameError ''FrankaRos''), inp, w)"
  by (simp add: main_def test_position_def example_position_def load_attr_def load_global_def
      FrankaControl_attributes_def module_globals_def builtin_names_def)

end
